theory Spec2Isabelle
  imports Main
begin

section \<open>Go values used by cmd/linuxkit/pkglib/docker.go\<close>

text \<open>
  Go strings are byte sequences, as HOL's \<open>string\<close> is. The error values that reach
  this file are told apart by their dynamic type, which is all the code inspects:
  \<^item> \<open>ExecError nf t\<close> is an \<open>*exec.Error\<close>; \<open>nf\<close> holds when its \<open>Err\<close> field is
    \<open>exec.ErrNotFound\<close>;
  \<^item> \<open>ExitError t\<close> is an \<open>*exec.ExitError\<close> (the process ran and exited non-zero);
  \<^item> \<open>ErrorString t\<close> is the value \<open>fmt.Errorf\<close> builds from a format without \<open>%w\<close>;
  \<^item> \<open>OtherError t\<close> is a value of any other type.
  In each case \<open>t\<close> is the text of the \<open>Error()\<close> method.
\<close>

datatype go_error =
    ExecError bool string
  | ExitError string
  | ErrorString string
  | OtherError string

fun error_text :: "go_error \<Rightarrow> string" where
  "error_text (ExecError nf t) = t"
| "error_text (ExitError t) = t"
| "error_text (ErrorString t) = t"
| "error_text (OtherError t) = t"

text \<open>A function either returns or panics (an index out of range).\<close>

datatype 'a outcome = Return 'a | Panic string

definition quote :: char where
  "quote = CHR 0x27"

definition newline :: char where
  "newline = CHR 0x0A"

subsection \<open>\<open>strings.Split\<close> with a one-byte separator\<close>

text \<open>
  \<open>strings.Split(s, sep)\<close> cuts \<open>s\<close> at every occurrence of \<open>sep\<close>; a string without
  the separator, the empty string included, gives one part. \<open>genSplit\<close> is the scan:
  \<open>part\<close> holds the bytes read since the last separator.
\<close>

fun genSplit :: "string \<Rightarrow> string \<Rightarrow> char \<Rightarrow> string list" where
  "genSplit part [] sep = [part]"
| "genSplit part (c # cs) sep =
     (if c = sep then part # genSplit [] cs sep else genSplit (part @ [c]) cs sep)"

definition Split :: "string \<Rightarrow> char \<Rightarrow> string list" where
  "Split s sep = genSplit [] s sep"

subsection \<open>\<open>strconv.Itoa\<close> and the \<open>%d\<close> verb\<close>

definition digit_char :: "nat \<Rightarrow> char" where
  "digit_char d = ''0123456789'' ! d"

fun digits10 :: "nat \<Rightarrow> string" where
  "digits10 n = (if n < 10 then [digit_char n] else digits10 (n div 10) @ [digit_char (n mod 10)])"

declare digits10.simps [simp del]

definition Itoa :: "int \<Rightarrow> string" where
  "Itoa i = (if i < 0 then CHR ''-'' # digits10 (nat (- i)) else digits10 (nat i))"

section \<open>Constants and types of the package\<close>

definition dctEnableEnv :: string where
  "dctEnableEnv = ''DOCKER_CONTENT_TRUST=1''"

definition notaryServer :: string where
  "notaryServer = ''https://notary.docker.io''"

definition notaryDelegationPassphraseEnvVar :: string where
  "notaryDelegationPassphraseEnvVar = ''NOTARY_DELEGATION_PASSPHRASE''"

definition notaryAuthEnvVar :: string where
  "notaryAuthEnvVar = ''NOTARY_AUTH''"

definition dctEnvVar :: string where
  "dctEnvVar = ''DOCKER_CONTENT_TRUST_REPOSITORY_PASSPHRASE''"

definition platforms :: "string list" where
  "platforms = [''linux/amd64'', ''linux/arm64'', ''linux/s390x'', ''linux/riscv64'']"

definition proxyEnvVars :: "string list" where
  "proxyEnvVars =
     [''http_proxy'', ''https_proxy'', ''no_proxy'', ''ftp_proxy'', ''all_proxy'',
      ''HTTP_PROXY'', ''HTTPS_PROXY'', ''NO_PROXY'', ''FTP_PROXY'', ''ALL_PROXY'']"

definition buildArgsEnv :: string where
  "buildArgsEnv = ''LK_BUILD_ARGS''"

text \<open>
  \<open>dockerRunner\<close>. The optional build context is an interface value with one method,
  \<open>Copy\<close>; the model keeps what that method returns: \<open>None\<close> is the nil context,
  \<open>Some r\<close> a context whose \<open>Copy\<close> returns \<open>r\<close>.
\<close>

record dockerRunner =
  dct :: bool
  cache :: bool
  sign :: bool
  ctx :: "go_error option option"

definition newDockerRunner :: "bool \<Rightarrow> bool \<Rightarrow> bool \<Rightarrow> dockerRunner" where
  "newDockerRunner d c s = \<lparr>dct = d, cache = c, sign = s, ctx = None\<rparr>"

text \<open>The fields of \<open>dockertypes.AuthConfig\<close> the file reads.\<close>

record AuthConfig =
  Username :: string
  Password :: string

text \<open>\<open>ocispec.Platform\<close>, \<open>types.ManifestEntry\<close> and \<open>types.YAMLInput\<close>, with the fields the file sets.\<close>

record Platform =
  OS :: string
  Architecture :: string
  Variant :: string

record ManifestEntry =
  entry_Image :: string
  entry_Platform :: Platform

record YAMLInput =
  yaml_Image :: string
  yaml_Manifests :: "ManifestEntry list"

section \<open>The world outside the program\<close>

text \<open>
  Everything the file reaches outside itself is a field of \<open>world\<close>: the environment
  variables, what running the engine and the signing tool gives, the credential store, the
  registry client, and the library functions \<open>json.Unmarshal\<close> (into a
  \<open>map[string]string\<close>, whose pairs come in the order the \<open>range\<close> loop visits them),
  \<open>base64.StdEncoding.EncodeToString\<close> and \<open>path.Join\<close>. One run of the pipeline makes
  each external call at most once, so an answer that depends on the call's arguments only
  loses nothing.
\<close>

record world =
  env :: "string \<rightharpoonup> string"
  run_docker :: "string list \<Rightarrow> string list \<Rightarrow> go_error option"
  stdin_pipe :: "go_error option"
  json_unmarshal :: "string \<Rightarrow> (string \<times> string) list option"
  docker_auth :: "AuthConfig \<times> go_error option"
  registry_push ::
    "string \<Rightarrow> string \<Rightarrow> YAMLInput \<Rightarrow> bool \<Rightarrow> bool \<Rightarrow> bool \<Rightarrow> string
       \<Rightarrow> string \<times> int \<times> go_error option"
  run_notary :: "string list \<Rightarrow> string list \<Rightarrow> go_error option"
  base64 :: "string \<Rightarrow> string"
  path_join :: "string \<Rightarrow> string \<Rightarrow> string"

text \<open>
  What a run does outside is recorded as a list of events, oldest first:
  \<^item> \<open>DockerRun e argv piped\<close>: the engine was started with the variables \<open>e\<close> added to
    the inherited environment and the argument vector \<open>argv\<close>; \<open>piped\<close> holds when
    the build context feeds its standard input;
  \<^item> \<open>AuthLookup\<close>: the credential store was read;
  \<^item> \<open>RegistryPush u p input b1 b2 b3 s\<close>: \<open>registry.PushManifestList\<close> was called with
    these arguments, in the order of the call;
  \<^item> \<open>NotaryRun e argv\<close>: the signing tool was started;
  \<^item> \<open>Print t\<close>: \<open>t\<close> was written to standard output.
  Debug logging is left out.
\<close>

datatype event =
    DockerRun "string list" "string list" bool
  | AuthLookup
  | RegistryPush string string YAMLInput bool bool bool string
  | NotaryRun "string list" "string list"
  | Print string

fun is_external_call :: "event \<Rightarrow> bool" where
  "is_external_call (DockerRun e argv piped) = True"
| "is_external_call AuthLookup = False"
| "is_external_call (RegistryPush u p i b1 b2 b3 s) = True"
| "is_external_call (NotaryRun e argv) = True"
| "is_external_call (Print t) = False"

fun is_notary_run :: "event \<Rightarrow> bool" where
  "is_notary_run (NotaryRun e argv) = True"
| "is_notary_run ev = False"

definition Getenv :: "world \<Rightarrow> string \<Rightarrow> string" where
  "Getenv w k = (case env w k of None \<Rightarrow> [] | Some v \<Rightarrow> v)"

section \<open>The command executor\<close>

fun isExecErrNotFound :: "go_error \<Rightarrow> bool" where
  "isExecErrNotFound (ExecError nf t) = nf"
| "isExecErrNotFound e = False"

definition isPush :: "string list \<Rightarrow> bool" where
  "isPush args \<longleftrightarrow> length args \<ge> 2 \<and> args ! 0 = ''image'' \<and> args ! 1 = ''push''"

text \<open>The loop over \<open>proxyEnvVars\<close> (lines 102--107).\<close>

fun proxyBuildArgs :: "world \<Rightarrow> string list \<Rightarrow> string list" where
  "proxyBuildArgs w [] = []"
| "proxyBuildArgs w (proxyVarName # rest) =
     (case env w proxyVarName of
        Some v \<Rightarrow> [''--build-arg'', proxyVarName @ ''='' @ v]
      | None \<Rightarrow> []) @ proxyBuildArgs w rest"

text \<open>The build args decoded from \<open>LK_BUILD_ARGS\<close> (lines 108--116).\<close>

fun kvBuildArgs :: "(string \<times> string) list \<Rightarrow> string list" where
  "kvBuildArgs [] = []"
| "kvBuildArgs ((k, v) # rest) = [''--build-arg'', k @ ''='' @ v] @ kvBuildArgs rest"

definition extraBuildArgs :: "world \<Rightarrow> string list" where
  "extraBuildArgs w =
     (case env w buildArgsEnv of
        None \<Rightarrow> []
      | Some v \<Rightarrow>
          (case json_unmarshal w v of
             None \<Rightarrow> []
           | Some KVs \<Rightarrow> kvBuildArgs KVs))"

text \<open>
  The end of \<open>command\<close> (lines 140--146): run the process; a failure to find the binary
  becomes the fixed message, any other failure is returned as it is, and after a clean run
  the result is that of the error group, \<open>eg\<close>.
\<close>

definition runCmd ::
  "world \<Rightarrow> string list \<Rightarrow> string list \<Rightarrow> bool \<Rightarrow> go_error option
     \<Rightarrow> event list \<times> go_error option outcome" where
  "runCmd w cmdEnv argv piped eg =
     ([DockerRun cmdEnv argv piped],
      Return (case run_docker w cmdEnv argv of
                Some err \<Rightarrow>
                  if isExecErrNotFound err
                  then Some (ErrorString ''linuxkit pkg requires docker to be installed'')
                  else Some err
              | None \<Rightarrow> eg))"

definition command :: "dockerRunner \<Rightarrow> world \<Rightarrow> string list \<Rightarrow> event list \<times> go_error option outcome" where
  "command dr w args =
     (let cmdArgs = ''docker'' # args;
          cmdEnv = (if dct dr \<and> (\<not> isPush args \<or> sign dr) then [dctEnableEnv] else [])
      in case args of
           [] \<Rightarrow> ([], Panic ''runtime error: index out of range [0] with length 0'')
         | a0 # as \<Rightarrow>
             if a0 = ''build'' then
               (let buildArgs = proxyBuildArgs w proxyEnvVars @ extraBuildArgs w;
                    newArgs = take 2 cmdArgs @ buildArgs @ drop 2 cmdArgs
                in case ctx dr of
                     None \<Rightarrow> runCmd w cmdEnv newArgs False None
                   | Some copied \<Rightarrow>
                       (case stdin_pipe w of
                          Some err \<Rightarrow> ([], Return (Some err))
                        | None \<Rightarrow> runCmd w cmdEnv (butlast newArgs @ [''-'']) True copied))
             else runCmd w cmdEnv cmdArgs False None)"

definition pull :: "dockerRunner \<Rightarrow> world \<Rightarrow> string \<Rightarrow> event list \<times> (bool \<times> go_error option) outcome" where
  "pull dr w img =
     (case command dr w [''image'', ''pull'', img] of
        (tr, Panic m) \<Rightarrow> (tr, Panic m)
      | (tr, Return None) \<Rightarrow> (tr, Return (True, None))
      | (tr, Return (Some (ExitError t))) \<Rightarrow> (tr, Return (False, None))
      | (tr, Return (Some err)) \<Rightarrow> (tr, Return (False, Some err)))"

definition push :: "dockerRunner \<Rightarrow> world \<Rightarrow> string \<Rightarrow> event list \<times> go_error option outcome" where
  "push dr w img = command dr w [''image'', ''push'', img]"

definition tag :: "dockerRunner \<Rightarrow> world \<Rightarrow> string \<Rightarrow> string \<Rightarrow> event list \<times> go_error option outcome" where
  "tag dr w ref tg =
     (case command dr w [''image'', ''tag'', ref, tg] of
        (tr, r) \<Rightarrow> (Print (''Tagging '' @ ref @ '' as '' @ tg @ [newline]) # tr, r))"

definition build :: "dockerRunner \<Rightarrow> world \<Rightarrow> string \<Rightarrow> string \<Rightarrow> string list \<Rightarrow> event list \<times> go_error option outcome" where
  "build dr w tg pkg opts =
     command dr w ([''build''] @ (if \<not> cache dr then [''--no-cache''] else []) @ opts @ [''-t'', tg, pkg])"

definition save :: "dockerRunner \<Rightarrow> world \<Rightarrow> string \<Rightarrow> string list \<Rightarrow> event list \<times> go_error option outcome" where
  "save dr w tgt refs = command dr w ([''image'', ''save'', ''-o'', tgt] @ refs)"

section \<open>Credentials\<close>

definition getDockerAuth :: "world \<Rightarrow> event list \<times> (AuthConfig \<times> go_error option)" where
  "getDockerAuth w = ([AuthLookup], docker_auth w)"

section \<open>The manifest list\<close>

text \<open>
  The loop of \<open>manifestPush\<close> (lines 237--255) over the platform strings still to visit,
  with the index \<open>i\<close> of the next one and the entries collected so far.
\<close>

fun manifestEntries :: "string \<Rightarrow> nat \<Rightarrow> string list \<Rightarrow> ManifestEntry list \<Rightarrow> go_error + ManifestEntry list" where
  "manifestEntries img i [] srcImages = Inr srcImages"
| "manifestEntries img i (platform # rest) srcImages =
     (let osArchArr = Split platform CHR ''/'' in
      if length osArchArr \<noteq> 2 \<and> length osArchArr \<noteq> 3
      then Inl (ErrorString (''platform argument '' @ Itoa (int i) @ '' is not of form ''
                  @ [quote] @ ''os/arch'' @ [quote] @ '': '' @ [quote] @ platform @ [quote]))
      else
        (let variant = (if length osArchArr = 3 then osArchArr ! 2 else []);
             os = osArchArr ! 0;
             arch = osArchArr ! 1
         in manifestEntries img (i + 1) rest
              (srcImages @
                 [\<lparr>entry_Image = img @ ''-'' @ arch,
                   entry_Platform = \<lparr>OS = os, Architecture = arch, Variant = variant\<rparr>\<rparr>])))"

text \<open>
  \<open>manifestPush\<close> reads the package variable \<open>platforms\<close>; \<open>manifestPush_over\<close> is its
  body with the value of that variable passed in.
\<close>

definition manifestPush_over ::
  "string list \<Rightarrow> world \<Rightarrow> string \<Rightarrow> AuthConfig \<Rightarrow> event list \<times> (string \<times> int \<times> go_error option)" where
  "manifestPush_over ps w img auth =
     (case manifestEntries img 0 ps [] of
        Inl err \<Rightarrow> ([], ([], 0, Some err))
      | Inr srcImages \<Rightarrow>
          (let yamlInput = \<lparr>yaml_Image = img, yaml_Manifests = srcImages\<rparr>
           in ([RegistryPush (Username auth) (Password auth) yamlInput True False False []],
               registry_push w (Username auth) (Password auth) yamlInput True False False [])))"

definition manifestPush :: "world \<Rightarrow> string \<Rightarrow> AuthConfig \<Rightarrow> event list \<times> (string \<times> int \<times> go_error option)" where
  "manifestPush w img auth = manifestPush_over platforms w img auth"

section \<open>Signing\<close>

definition notaryArgs :: "world \<Rightarrow> string \<Rightarrow> string \<Rightarrow> int \<Rightarrow> string \<Rightarrow> string list" where
  "notaryArgs w repo tg len hash =
     [''-s'', notaryServer,
      ''-d'', path_join w (Getenv w ''HOME'') ''.docker/trust'',
      ''addhash'', ''-p'',
      ''docker.io/'' @ repo,
      tg,
      Itoa len,
      ''--sha256'',
      hash,
      ''-r'', ''targets/releases'']"

definition signManifest :: "world \<Rightarrow> string \<Rightarrow> string \<Rightarrow> int \<Rightarrow> AuthConfig \<Rightarrow> event list \<times> go_error option" where
  "signManifest w img digest len auth =
     (let imgParts = Split img CHR '':'' in
      if length imgParts < 2
      then ([], Some (ErrorString (''image not composed of <repo>:<tag> '' @ [quote] @ img @ [quote])))
      else
        (let repo = imgParts ! 0;
             tg = imgParts ! 1;
             digestParts = Split digest CHR '':''
         in if length digestParts < 2
            then ([], Some (ErrorString (''digest not composed of <algo>:<hash> '' @ [quote] @ digest @ [quote])))
            else
              (let algo = digestParts ! 0;
                   hash = digestParts ! 1
               in if algo \<noteq> ''sha256''
                  then ([], Some (ErrorString (''notary works with sha256 hash, not the provided '' @ algo)))
                  else
                    (let notaryAuth = base64 w (Username auth @ '':'' @ Password auth);
                         argv = ''notary'' # notaryArgs w repo tg len hash;
                         cmdEnv = [notaryDelegationPassphraseEnvVar @ ''='' @ Getenv w dctEnvVar,
                                   notaryAuthEnvVar @ ''='' @ notaryAuth]
                     in case run_notary w cmdEnv argv of
                          Some err \<Rightarrow>
                            ([NotaryRun cmdEnv argv],
                             Some (ErrorString (''failed to execute notary-tool: '' @ error_text err)))
                        | None \<Rightarrow>
                            ([NotaryRun cmdEnv argv,
                              Print (''Signed manifest index: '' @ repo @ '':'' @ tg @ [newline])],
                             None)))))"

section \<open>The pipeline\<close>

text \<open>
  \<open>pushWithManifest\<close>, in the order of its text: the image push (lines 172--179), the
  credential lookup (lines 181--184), the manifest push (lines 186--194) and the signing
  (lines 195--205). Each stage gives its events and its result; a stage that fails ends
  the run with the events so far.
\<close>

definition imagePushStage ::
  "dockerRunner \<Rightarrow> world \<Rightarrow> string \<Rightarrow> string \<Rightarrow> bool \<Rightarrow> event list \<times> go_error option outcome" where
  "imagePushStage dr w img suffix pushImage =
     (if pushImage
      then (case push dr w (img @ suffix) of
              (tr, r) \<Rightarrow> (Print (''Pushing '' @ img @ suffix @ [newline]) # tr, r))
      else ([Print (''Image push disabled, skipping...'' @ [newline])], Return None))"

definition manifestPushStage ::
  "world \<Rightarrow> string \<Rightarrow> string \<Rightarrow> AuthConfig \<Rightarrow> bool \<Rightarrow> event list \<times> (string \<times> int \<times> go_error option)" where
  "manifestPushStage w img suffix auth pushManifest =
     (if pushManifest
      then (case manifestPush w img auth of
              (tr, r) \<Rightarrow>
                (Print (''Pushing '' @ img @ suffix @ '' to manifest '' @ img @ [newline]) # tr, r))
      else ([Print (''Manifest push disabled, skipping...'' @ [newline])], [], 0, None))"

definition signStage ::
  "dockerRunner \<Rightarrow> world \<Rightarrow> string \<Rightarrow> string \<Rightarrow> int \<Rightarrow> AuthConfig \<Rightarrow> bool \<Rightarrow> event list \<times> go_error option" where
  "signStage dr w img digest l auth doSign =
     (if \<not> dct dr
      then ([Print (''trust disabled, not signing'' @ [newline])], None)
      else if \<not> doSign
      then ([Print (''signing disabled, not signing'' @ [newline])], None)
      else (case signManifest w img digest l auth of
              (tr, r) \<Rightarrow> (Print (''Signing manifest for '' @ img @ [newline]) # tr, r)))"

definition pushWithManifest ::
  "dockerRunner \<Rightarrow> world \<Rightarrow> string \<Rightarrow> string \<Rightarrow> bool \<Rightarrow> bool \<Rightarrow> bool \<Rightarrow> event list \<times> go_error option outcome" where
  "pushWithManifest dr w img suffix pushImage pushManifest doSign =
     (case imagePushStage dr w img suffix pushImage of
        (t1, Panic m) \<Rightarrow> (t1, Panic m)
      | (t1, Return (Some err)) \<Rightarrow> (t1, Return (Some err))
      | (t1, Return None) \<Rightarrow>
          (case getDockerAuth w of
             (t2, auth, Some err) \<Rightarrow>
               (t1 @ t2, Return (Some (ErrorString (''failed to get auth: '' @ error_text err))))
           | (t2, auth, None) \<Rightarrow>
               (case manifestPushStage w img suffix auth pushManifest of
                  (t3, digest, l, Some err) \<Rightarrow> (t1 @ t2 @ t3, Return (Some err))
                | (t3, digest, l, None) \<Rightarrow>
                    (case signStage dr w img digest l auth doSign of
                       (t4, r) \<Rightarrow> (t1 @ t2 @ t3 @ t4, Return r)))))"

section \<open>Names used in the statements and proofs\<close>

text \<open>The number of slash-separated parts of a platform string, the entry the loop of
  \<open>manifestPush\<close> adds for one, and the error it returns for one it rejects.\<close>

definition partCount :: "string \<Rightarrow> nat" where
  "partCount platform = length (Split platform CHR ''/'')"

definition platformEntry :: "string \<Rightarrow> string \<Rightarrow> ManifestEntry" where
  "platformEntry img platform =
     \<lparr>entry_Image = img @ ''-'' @ Split platform CHR ''/'' ! 1,
      entry_Platform =
        \<lparr>OS = Split platform CHR ''/'' ! 0,
         Architecture = Split platform CHR ''/'' ! 1,
         Variant = (if partCount platform = 3 then Split platform CHR ''/'' ! 2 else [])\<rparr>\<rparr>"

definition platformError :: "nat \<Rightarrow> string \<Rightarrow> go_error" where
  "platformError i platform =
     ErrorString (''platform argument '' @ Itoa (int i) @ '' is not of form ''
        @ [quote] @ ''os/arch'' @ [quote] @ '': '' @ [quote] @ platform @ [quote])"

text \<open>A world in which every external call succeeds, and a credential.\<close>

definition calm_world :: world where
  "calm_world =
     \<lparr>env = Map.empty,
      run_docker = (\<lambda>e argv. None),
      stdin_pipe = None,
      json_unmarshal = (\<lambda>v. None),
      docker_auth = (\<lparr>Username = ''u'', Password = ''p''\<rparr>, None),
      registry_push = (\<lambda>u p input b1 b2 b3 s. (''sha256:'' @ replicate 64 CHR ''a'', 1234, None)),
      run_notary = (\<lambda>e argv. None),
      base64 = (\<lambda>s. ''dTpw''),
      path_join = (\<lambda>a b. if a = [] then b else a @ ''/'' @ b)\<rparr>"

definition user_auth :: AuthConfig where
  "user_auth = \<lparr>Username = ''u'', Password = ''p''\<rparr>"

text \<open>The first policy flag of a registry call, and the argument vector of a run of the signing tool.\<close>

fun ignore_missing_flag :: "event \<Rightarrow> bool option" where
  "ignore_missing_flag (RegistryPush u p input ignoreMissing insecure plainHttp configDir) = Some ignoreMissing"
| "ignore_missing_flag ev = None"

fun notary_argv :: "event \<Rightarrow> string list" where
  "notary_argv (NotaryRun e argv) = argv"
| "notary_argv ev = []"

text \<open>The three validation errors of \<open>signManifest\<close>, and a digest's 64 hex digits.\<close>

definition imageFormatError :: "string \<Rightarrow> go_error" where
  "imageFormatError img =
     ErrorString (''image not composed of <repo>:<tag> '' @ [quote] @ img @ [quote])"

definition digestFormatError :: "string \<Rightarrow> go_error" where
  "digestFormatError digest =
     ErrorString (''digest not composed of <algo>:<hash> '' @ [quote] @ digest @ [quote])"

definition algorithmError :: "string \<Rightarrow> go_error" where
  "algorithmError algo = ErrorString (''notary works with sha256 hash, not the provided '' @ algo)"

definition hex64 :: string where
  "hex64 = ''9f86d081884c7d659a2feaa0c55ad015a3bf4f1b2b0b822cd15d6c15b0f00a08''"

text \<open>Whether an error value is an \<open>*exec.ExitError\<close>, the case \<open>pull\<close> singles out.\<close>

fun isExitError :: "go_error \<Rightarrow> bool" where
  "isExitError (ExitError t) = True"
| "isExitError e = False"

text \<open>
  Worlds in which the engine exits with status 1, in which the engine binary is missing,
  in which the credential store cannot be read, and in which \<open>LK_BUILD_ARGS\<close> holds
  text that is not JSON while one proxy variable is set; and two runners.
\<close>

definition failing_engine_world :: world where
  "failing_engine_world = calm_world\<lparr>run_docker := (\<lambda>e argv. Some (ExitError ''exit status 1''))\<rparr>"

definition no_engine_world :: world where
  "no_engine_world =
     calm_world\<lparr>run_docker :=
       (\<lambda>e argv. Some (ExecError True ''executable file not found in PATH''))\<rparr>"

definition no_credentials_world :: world where
  "no_credentials_world =
     calm_world\<lparr>docker_auth :=
       (\<lparr>Username = [], Password = []\<rparr>, Some (OtherError ''error getting credentials''))\<rparr>"

definition bad_json_world :: world where
  "bad_json_world =
     calm_world\<lparr>env := [''http_proxy'' \<mapsto> ''http://proxy:3128'', ''LK_BUILD_ARGS'' \<mapsto> ''{not json'']\<rparr>"

definition plain_runner :: dockerRunner where
  "plain_runner = newDockerRunner False True False"

definition trusting_runner :: dockerRunner where
  "trusting_runner = newDockerRunner True True True"

text \<open>
  The stages of \<open>pushWithManifest\<close> before the signing stage pass when none of them
  fails: the image push, the credential lookup, the manifest push.
\<close>

definition earlier_stages_pass :: "dockerRunner \<Rightarrow> world \<Rightarrow> string \<Rightarrow> string \<Rightarrow> bool \<Rightarrow> bool \<Rightarrow> bool" where
  "earlier_stages_pass dr w img suffix pushImage pushManifest \<longleftrightarrow>
     snd (imagePushStage dr w img suffix pushImage) = Return None \<and>
     snd (docker_auth w) = None \<and>
     snd (snd (snd (manifestPushStage w img suffix (fst (docker_auth w)) pushManifest))) = None"

section \<open>Facts about \<open>Split\<close>\<close>

lemma genSplit_part:
  "genSplit part s sep = (part @ hd (genSplit [] s sep)) # tl (genSplit [] s sep)"
proof (induction s arbitrary: part)
  case Nil
  show ?case by simp
next
  case (Cons c cs)
  show ?case
  proof (cases "c = sep")
    case True
    then show ?thesis by simp
  next
    case False
    have "genSplit part (c # cs) sep = genSplit (part @ [c]) cs sep"
      using False by simp
    also have "\<dots> = ((part @ [c]) @ hd (genSplit [] cs sep)) # tl (genSplit [] cs sep)"
      by (rule Cons.IH)
    finally have lhs: "genSplit part (c # cs) sep =
        (part @ c # hd (genSplit [] cs sep)) # tl (genSplit [] cs sep)"
      by simp
    have "genSplit [] (c # cs) sep = genSplit [c] cs sep"
      using False by simp
    also have "\<dots> = ([c] @ hd (genSplit [] cs sep)) # tl (genSplit [] cs sep)"
      by (rule Cons.IH)
    finally have "genSplit [] (c # cs) sep = (c # hd (genSplit [] cs sep)) # tl (genSplit [] cs sep)"
      by simp
    with lhs show ?thesis by simp
  qed
qed

lemma Split_Nil: "Split [] sep = [[]]"
  by (simp add: Split_def)

lemma Split_Cons:
  "Split (c # cs) sep =
     (if c = sep then [] # Split cs sep else (c # hd (Split cs sep)) # tl (Split cs sep))"
  using genSplit_part [of "[c]" cs sep] by (simp add: Split_def)

lemma Split_not_Nil: "Split s c \<noteq> []"
  by (induction s) (auto simp: Split_Nil Split_Cons)

lemma Split_no_sep: "c \<notin> set s \<Longrightarrow> Split s c = [s]"
  by (induction s) (auto simp: Split_Nil Split_Cons)

lemma Split_append_sep: "c \<notin> set a \<Longrightarrow> Split (a @ c # b) c = a # Split b c"
  by (induction a) (auto simp: Split_Cons)

section \<open>The manifest list: properties\<close>

lemma manifestEntries_ok:
  "list_all (\<lambda>p. partCount p = 2 \<or> partCount p = 3) ps \<Longrightarrow>
   manifestEntries img i ps acc = Inr (acc @ map (platformEntry img) ps)"
  by (induction ps arbitrary: i acc) (auto simp: partCount_def platformEntry_def Let_def)

lemma manifestEntries_bad:
  "k < length ps \<Longrightarrow> partCount (ps ! k) \<noteq> 2 \<Longrightarrow> partCount (ps ! k) \<noteq> 3 \<Longrightarrow>
   list_all (\<lambda>p. partCount p = 2 \<or> partCount p = 3) (take k ps) \<Longrightarrow>
   manifestEntries img i ps acc = Inl (platformError (i + k) (ps ! k))"
proof (induction ps arbitrary: i k acc)
  case Nil
  then show ?case by simp
next
  case (Cons p ps)
  show ?case
  proof (cases k)
    case 0
    with Cons.prems show ?thesis
      by (simp add: partCount_def platformError_def)
  next
    case (Suc k')
    with Cons.prems have good: "partCount p = 2 \<or> partCount p = 3"
      and rest: "k' < length ps" "partCount (ps ! k') \<noteq> 2" "partCount (ps ! k') \<noteq> 3"
        "list_all (\<lambda>p. partCount p = 2 \<or> partCount p = 3) (take k' ps)"
      by simp_all
    from Cons.IH [OF rest] have "manifestEntries img (Suc i) ps acc' = Inl (platformError (Suc i + k') (ps ! k'))" for acc'
      by simp
    with good Suc show ?thesis
      by (auto simp: partCount_def Let_def)
  qed
qed

lemma Split_join: "concat (map (\<lambda>p. c # p) (Split s c)) = c # s"
proof (induction s)
  case Nil
  show ?case by (simp add: Split_Nil)
next
  case (Cons x xs)
  obtain p ps where S: "Split xs c = p # ps"
    using Split_not_Nil [of xs c] by (cases "Split xs c") auto
  with Cons.IH have "p @ concat (map (\<lambda>p. c # p) ps) = xs" by simp
  with S show ?case by (auto simp: Split_Cons)
qed

lemma Split_two: "length (Split s c) = 2 \<Longrightarrow> s = Split s c ! 0 @ c # Split s c ! 1"
proof -
  assume "length (Split s c) = 2"
  then obtain a b where S: "Split s c = [a, b]"
    by (cases "Split s c"; cases "tl (Split s c)") auto
  with Split_join [of c s] show ?thesis by simp
qed

lemma Split_three:
  "length (Split s c) = 3 \<Longrightarrow> s = Split s c ! 0 @ c # Split s c ! 1 @ c # Split s c ! 2"
proof -
  assume "length (Split s c) = 3"
  then obtain a b d where S: "Split s c = [a, b, d]"
    by (cases "Split s c"; cases "tl (Split s c)"; cases "tl (tl (Split s c))") auto
  with Split_join [of c s] show ?thesis by simp
qed

text \<open>
  Claim C6. Over any value of the platform list: when every platform string has 2 or 3
  slash-separated parts, \<open>manifestPush\<close> makes one registry call whose Manifest List
  Input has one entry per platform, in the order of the list, the entry's image reference
  being the base image, \<open>-\<close> and the architecture part, and its os, architecture and
  variant being the parts of the platform string unchanged (joined by slashes they give the
  platform string back). When the string at position \<open>k\<close> is the first with another
  number of parts, the result is the error that names \<open>k\<close> and that string, and no
  registry call is made.
\<close>

theorem manifestPush_entries_or_positional_error:
  "(list_all (\<lambda>p. length (Split p CHR ''/'') = 2 \<or> length (Split p CHR ''/'') = 3) ps \<longrightarrow>
     (\<exists>entries.
        manifestPush_over ps w img auth =
          ([RegistryPush (Username auth) (Password auth)
              \<lparr>yaml_Image = img, yaml_Manifests = entries\<rparr> True False False []],
           registry_push w (Username auth) (Password auth)
              \<lparr>yaml_Image = img, yaml_Manifests = entries\<rparr> True False False []) \<and>
        length entries = length ps \<and>
        (\<forall>i<length ps.
           entry_Image (entries ! i) = img @ ''-'' @ Architecture (entry_Platform (entries ! i)) \<and>
           OS (entry_Platform (entries ! i)) = Split (ps ! i) CHR ''/'' ! 0 \<and>
           Architecture (entry_Platform (entries ! i)) = Split (ps ! i) CHR ''/'' ! 1 \<and>
           Variant (entry_Platform (entries ! i)) =
             (if length (Split (ps ! i) CHR ''/'') = 3 then Split (ps ! i) CHR ''/'' ! 2 else []) \<and>
           ps ! i =
             OS (entry_Platform (entries ! i)) @ ''/'' @ Architecture (entry_Platform (entries ! i)) @
             (if length (Split (ps ! i) CHR ''/'') = 3
              then ''/'' @ Variant (entry_Platform (entries ! i)) else [])))) \<and>
   (\<forall>k. k < length ps \<and>
        length (Split (ps ! k) CHR ''/'') \<noteq> 2 \<and> length (Split (ps ! k) CHR ''/'') \<noteq> 3 \<and>
        list_all (\<lambda>p. length (Split p CHR ''/'') = 2 \<or> length (Split p CHR ''/'') = 3) (take k ps) \<longrightarrow>
        manifestPush_over ps w img auth =
          ([], [], 0,
           Some (ErrorString (''platform argument '' @ Itoa (int k) @ '' is not of form ''
                   @ [quote] @ ''os/arch'' @ [quote] @ '': '' @ [quote] @ ps ! k @ [quote]))))"
proof (intro conjI impI allI)
  assume good: "list_all (\<lambda>p. length (Split p CHR ''/'') = 2 \<or> length (Split p CHR ''/'') = 3) ps"
  then have run: "manifestEntries img 0 ps [] = Inr (map (platformEntry img) ps)"
    using manifestEntries_ok [of ps img 0 "[]"] by (simp add: partCount_def)
  have each: "\<forall>i<length ps.
      ps ! i =
        Split (ps ! i) CHR ''/'' ! 0 @ ''/'' @ Split (ps ! i) CHR ''/'' ! 1 @
        (if length (Split (ps ! i) CHR ''/'') = 3 then ''/'' @ Split (ps ! i) CHR ''/'' ! 2 else [])"
  proof (intro allI impI)
    fix i assume "i < length ps"
    with good have "length (Split (ps ! i) CHR ''/'') = 2 \<or> length (Split (ps ! i) CHR ''/'') = 3"
      by (simp add: list_all_length)
    then show "ps ! i =
        Split (ps ! i) CHR ''/'' ! 0 @ ''/'' @ Split (ps ! i) CHR ''/'' ! 1 @
        (if length (Split (ps ! i) CHR ''/'') = 3 then ''/'' @ Split (ps ! i) CHR ''/'' ! 2 else [])"
      using Split_two [of "ps ! i" "CHR ''/''"] Split_three [of "ps ! i" "CHR ''/''"] by auto
  qed
  show "\<exists>entries.
        manifestPush_over ps w img auth =
          ([RegistryPush (Username auth) (Password auth)
              \<lparr>yaml_Image = img, yaml_Manifests = entries\<rparr> True False False []],
           registry_push w (Username auth) (Password auth)
              \<lparr>yaml_Image = img, yaml_Manifests = entries\<rparr> True False False []) \<and>
        length entries = length ps \<and>
        (\<forall>i<length ps.
           entry_Image (entries ! i) = img @ ''-'' @ Architecture (entry_Platform (entries ! i)) \<and>
           OS (entry_Platform (entries ! i)) = Split (ps ! i) CHR ''/'' ! 0 \<and>
           Architecture (entry_Platform (entries ! i)) = Split (ps ! i) CHR ''/'' ! 1 \<and>
           Variant (entry_Platform (entries ! i)) =
             (if length (Split (ps ! i) CHR ''/'') = 3 then Split (ps ! i) CHR ''/'' ! 2 else []) \<and>
           ps ! i =
             OS (entry_Platform (entries ! i)) @ ''/'' @ Architecture (entry_Platform (entries ! i)) @
             (if length (Split (ps ! i) CHR ''/'') = 3
              then ''/'' @ Variant (entry_Platform (entries ! i)) else []))"
    apply (rule exI [of _ "map (platformEntry img) ps"])
    using each by (auto simp add: manifestPush_over_def run platformEntry_def partCount_def Let_def)
next
  fix k
  assume bad: "k < length ps \<and>
        length (Split (ps ! k) CHR ''/'') \<noteq> 2 \<and> length (Split (ps ! k) CHR ''/'') \<noteq> 3 \<and>
        list_all (\<lambda>p. length (Split p CHR ''/'') = 2 \<or> length (Split p CHR ''/'') = 3) (take k ps)"
  then have "manifestEntries img 0 ps [] = Inl (platformError (0 + k) (ps ! k))"
    by (intro manifestEntries_bad) (simp_all add: partCount_def)
  then show "manifestPush_over ps w img auth =
          ([], [], 0,
           Some (ErrorString (''platform argument '' @ Itoa (int k) @ '' is not of form ''
                   @ [quote] @ ''os/arch'' @ [quote] @ '': '' @ [quote] @ ps ! k @ [quote])))"
    by (simp add: manifestPush_over_def platformError_def)
qed

theorem manifestPush_entries_or_positional_error_witness:
  "list_all (\<lambda>p. length (Split p CHR ''/'') = 2 \<or> length (Split p CHR ''/'') = 3)
      [''linux/amd64'', ''linux/arm/v7''] \<and>
   (\<exists>entries.
      fst (manifestPush_over [''linux/amd64'', ''linux/arm/v7''] calm_world ''example/app'' user_auth) =
        [RegistryPush ''u'' ''p'' \<lparr>yaml_Image = ''example/app'', yaml_Manifests = entries\<rparr>
           True False False []] \<and>
      length entries = 2 \<and>
      entry_Image (entries ! 1) = ''example/app-arm'' \<and>
      OS (entry_Platform (entries ! 1)) = ''linux'' \<and>
      Architecture (entry_Platform (entries ! 1)) = ''arm'' \<and>
      Variant (entry_Platform (entries ! 1)) = ''v7'') \<and>
   length (Split ''windows'' CHR ''/'') = 1 \<and>
   manifestPush_over [''linux/amd64'', ''windows''] calm_world ''example/app'' user_auth =
     ([], [], 0,
      Some (ErrorString (''platform argument 1 is not of form '' @ [quote] @ ''os/arch'' @ [quote]
              @ '': '' @ [quote] @ ''windows'' @ [quote])))"
proof -
  let ?good = "[''linux/amd64'', ''linux/arm/v7'']"
  let ?bad = "[''linux/amd64'', ''windows'']"
  have h1: "list_all (\<lambda>p. length (Split p CHR ''/'') = 2 \<or> length (Split p CHR ''/'') = 3) ?good"
    by (simp add: Split_def)
  have h2: "(1::nat) < length ?bad \<and>
        length (Split (?bad ! 1) CHR ''/'') \<noteq> 2 \<and> length (Split (?bad ! 1) CHR ''/'') \<noteq> 3 \<and>
        list_all (\<lambda>p. length (Split p CHR ''/'') = 2 \<or> length (Split p CHR ''/'') = 3) (take 1 ?bad)"
    by (simp add: Split_def)
  from manifestPush_entries_or_positional_error [of ?good calm_world "''example/app''" user_auth] h1
  obtain entries where
    e: "manifestPush_over ?good calm_world ''example/app'' user_auth =
          ([RegistryPush (Username user_auth) (Password user_auth)
              \<lparr>yaml_Image = ''example/app'', yaml_Manifests = entries\<rparr> True False False []],
           registry_push calm_world (Username user_auth) (Password user_auth)
              \<lparr>yaml_Image = ''example/app'', yaml_Manifests = entries\<rparr> True False False [])"
      "length entries = length ?good"
      "\<forall>i<length ?good.
           entry_Image (entries ! i) = ''example/app'' @ ''-'' @ Architecture (entry_Platform (entries ! i)) \<and>
           OS (entry_Platform (entries ! i)) = Split (?good ! i) CHR ''/'' ! 0 \<and>
           Architecture (entry_Platform (entries ! i)) = Split (?good ! i) CHR ''/'' ! 1 \<and>
           Variant (entry_Platform (entries ! i)) =
             (if length (Split (?good ! i) CHR ''/'') = 3 then Split (?good ! i) CHR ''/'' ! 2 else []) \<and>
           ?good ! i =
             OS (entry_Platform (entries ! i)) @ ''/'' @ Architecture (entry_Platform (entries ! i)) @
             (if length (Split (?good ! i) CHR ''/'') = 3
              then ''/'' @ Variant (entry_Platform (entries ! i)) else [])"
    by blast
  from e(3) have at1:
    "entry_Image (entries ! 1) = ''example/app-arm'' \<and>
      OS (entry_Platform (entries ! 1)) = ''linux'' \<and>
      Architecture (entry_Platform (entries ! 1)) = ''arm'' \<and>
      Variant (entry_Platform (entries ! 1)) = ''v7''"
    by (simp add: Split_def)
  have first: "\<exists>entries.
      fst (manifestPush_over ?good calm_world ''example/app'' user_auth) =
        [RegistryPush ''u'' ''p'' \<lparr>yaml_Image = ''example/app'', yaml_Manifests = entries\<rparr>
           True False False []] \<and>
      length entries = 2 \<and>
      entry_Image (entries ! 1) = ''example/app-arm'' \<and>
      OS (entry_Platform (entries ! 1)) = ''linux'' \<and>
      Architecture (entry_Platform (entries ! 1)) = ''arm'' \<and>
      Variant (entry_Platform (entries ! 1)) = ''v7''"
    using e(1,2) at1 by (intro exI [of _ entries]) (simp add: user_auth_def)
  from manifestPush_entries_or_positional_error
         [of ?bad calm_world "''example/app''" user_auth, THEN conjunct2, THEN spec [where x = "1::nat"]] h2
  have second: "manifestPush_over ?bad calm_world ''example/app'' user_auth =
     ([], [], 0,
      Some (ErrorString (''platform argument 1 is not of form '' @ [quote] @ ''os/arch'' @ [quote]
              @ '': '' @ [quote] @ ''windows'' @ [quote])))"
    by (simp add: Itoa_def digits10.simps digit_char_def)
  have third: "length (Split ''windows'' CHR ''/'') = 1"
    by (simp add: Split_def)
  from h1 first second third show ?thesis by simp
qed

lemma manifestEntries_platforms:
  "manifestEntries img 0 platforms [] = Inr (map (platformEntry img) platforms)"
proof -
  have "list_all (\<lambda>p. partCount p = 2 \<or> partCount p = 3) platforms"
    by (simp add: platforms_def partCount_def Split_def)
  from manifestEntries_ok [OF this, of img 0 "[]"] show ?thesis by simp
qed

text \<open>
  Claim C10. Each of the four strings of \<open>platforms\<close> splits into exactly two parts, so
  the loop of \<open>manifestPush\<close> never takes its error branch: it yields the four entries,
  and every call of \<open>manifestPush\<close> makes exactly one external call, the registry push,
  whose result it returns.
\<close>

theorem fixed_platforms_reach_registry:
  "map (\<lambda>p. length (Split p CHR ''/'')) platforms = [2, 2, 2, 2] \<and>
   manifestEntries img 0 platforms [] =
     Inr [\<lparr>entry_Image = img @ ''-amd64'',
            entry_Platform = \<lparr>OS = ''linux'', Architecture = ''amd64'', Variant = []\<rparr>\<rparr>,
          \<lparr>entry_Image = img @ ''-arm64'',
            entry_Platform = \<lparr>OS = ''linux'', Architecture = ''arm64'', Variant = []\<rparr>\<rparr>,
          \<lparr>entry_Image = img @ ''-s390x'',
            entry_Platform = \<lparr>OS = ''linux'', Architecture = ''s390x'', Variant = []\<rparr>\<rparr>,
          \<lparr>entry_Image = img @ ''-riscv64'',
            entry_Platform = \<lparr>OS = ''linux'', Architecture = ''riscv64'', Variant = []\<rparr>\<rparr>] \<and>
   length (filter is_external_call (fst (manifestPush w img auth))) = 1 \<and>
   (\<exists>input. fst (manifestPush w img auth) =
        [RegistryPush (Username auth) (Password auth) input True False False []] \<and>
      snd (manifestPush w img auth) =
        registry_push w (Username auth) (Password auth) input True False False [])"
proof -
  have parts: "map (\<lambda>p. length (Split p CHR ''/'')) platforms = [2, 2, 2, 2]"
    by (simp add: platforms_def Split_def)
  have entries: "manifestEntries img 0 platforms [] =
     Inr [\<lparr>entry_Image = img @ ''-amd64'',
            entry_Platform = \<lparr>OS = ''linux'', Architecture = ''amd64'', Variant = []\<rparr>\<rparr>,
          \<lparr>entry_Image = img @ ''-arm64'',
            entry_Platform = \<lparr>OS = ''linux'', Architecture = ''arm64'', Variant = []\<rparr>\<rparr>,
          \<lparr>entry_Image = img @ ''-s390x'',
            entry_Platform = \<lparr>OS = ''linux'', Architecture = ''s390x'', Variant = []\<rparr>\<rparr>,
          \<lparr>entry_Image = img @ ''-riscv64'',
            entry_Platform = \<lparr>OS = ''linux'', Architecture = ''riscv64'', Variant = []\<rparr>\<rparr>]"
    by (simp add: platforms_def Let_def Split_def)
  from entries show ?thesis
    using parts by (simp add: manifestPush_def manifestPush_over_def Let_def)
qed

text \<open>
  Claim C1, as amended. \<open>manifestPush\<close> submits the Manifest List Input (the base image
  and one entry per platform) with the credentials, the first policy flag, ignore-missing,
  being \<open>true\<close>, the two other flags \<open>false\<close> and the last argument the empty string;
  it returns what the registry client returns.
\<close>

theorem manifestPush_flags:
  "fst (manifestPush w img auth) =
     [RegistryPush (Username auth) (Password auth)
        \<lparr>yaml_Image = img, yaml_Manifests = map (platformEntry img) platforms\<rparr>
        True False False []] \<and>
   snd (manifestPush w img auth) =
     registry_push w (Username auth) (Password auth)
        \<lparr>yaml_Image = img, yaml_Manifests = map (platformEntry img) platforms\<rparr>
        True False False [] \<and>
   map ignore_missing_flag (fst (manifestPush w img auth)) = [Some True]"
  by (simp add: manifestPush_def manifestPush_over_def manifestEntries_platforms Let_def)

text \<open>
  Claim C1 as stated says the ignore-missing flag is \<open>false\<close>; the call passes \<open>true\<close>.
\<close>

theorem manifestPush_ignore_missing_counterexample:
  "map ignore_missing_flag (fst (manifestPush calm_world ''example/app'' user_auth)) = [Some True] \<and>
   map ignore_missing_flag (fst (manifestPush calm_world ''example/app'' user_auth)) \<noteq> [Some False]"
  by (simp add: manifestPush_def manifestPush_over_def manifestEntries_platforms Let_def)

section \<open>Signing: properties\<close>

lemma length_Split_less_2: "length (Split s c) < 2 \<longleftrightarrow> c \<notin> set s"
proof (induction s)
  case Nil
  show ?case by (simp add: Split_Nil)
next
  case (Cons x xs)
  obtain p ps where "Split xs c = p # ps"
    using Split_not_Nil [of xs c] by (cases "Split xs c") auto
  with Cons.IH show ?case by (auto simp: Split_Cons)
qed

lemma Split_nth_0: "Split s c ! 0 = takeWhile (\<lambda>x. x \<noteq> c) s"
proof (induction s)
  case Nil
  show ?case by (simp add: Split_Nil)
next
  case (Cons x xs)
  from Split_not_Nil [of xs c] have "hd (Split xs c) = Split xs c ! 0"
    by (simp add: hd_conv_nth)
  with Cons.IH show ?case by (simp add: Split_Cons)
qed

lemma Split_pair: "c \<notin> set a \<Longrightarrow> c \<notin> set b \<Longrightarrow> Split (a @ c # b) c = [a, b]"
  by (simp add: Split_append_sep Split_no_sep)

text \<open>The three checks of \<open>signManifest\<close>, one lemma each.\<close>

lemma signManifest_no_colon_in_image:
  "CHR '':'' \<notin> set img \<Longrightarrow> signManifest w img digest len auth = ([], Some (imageFormatError img))"
  by (simp add: signManifest_def length_Split_less_2 imageFormatError_def)

lemma signManifest_no_colon_in_digest:
  "CHR '':'' \<in> set img \<Longrightarrow> CHR '':'' \<notin> set digest \<Longrightarrow>
   signManifest w img digest len auth = ([], Some (digestFormatError digest))"
  by (simp add: signManifest_def length_Split_less_2 digestFormatError_def Let_def)

lemma signManifest_other_algorithm:
  "CHR '':'' \<in> set img \<Longrightarrow> CHR '':'' \<in> set digest \<Longrightarrow>
   takeWhile (\<lambda>c. c \<noteq> CHR '':'') digest \<noteq> ''sha256'' \<Longrightarrow>
   signManifest w img digest len auth =
     ([], Some (algorithmError (takeWhile (\<lambda>c. c \<noteq> CHR '':'') digest)))"
  by (simp add: signManifest_def length_Split_less_2 Split_nth_0 algorithmError_def Let_def)


lemma signManifest_valid:
  assumes "CHR '':'' \<in> set img" and "CHR '':'' \<in> set digest"
    and "takeWhile (\<lambda>c. c \<noteq> CHR '':'') digest = ''sha256''"
  shows "signManifest w img digest len auth =
     (case run_notary w
             [notaryDelegationPassphraseEnvVar @ ''='' @ Getenv w dctEnvVar,
              notaryAuthEnvVar @ ''='' @ base64 w (Username auth @ '':'' @ Password auth)]
             (''notary'' # notaryArgs w (Split img CHR '':'' ! 0) (Split img CHR '':'' ! 1) len
                (Split digest CHR '':'' ! 1)) of
        Some err \<Rightarrow>
          ([NotaryRun
              [notaryDelegationPassphraseEnvVar @ ''='' @ Getenv w dctEnvVar,
               notaryAuthEnvVar @ ''='' @ base64 w (Username auth @ '':'' @ Password auth)]
              (''notary'' # notaryArgs w (Split img CHR '':'' ! 0) (Split img CHR '':'' ! 1) len
                 (Split digest CHR '':'' ! 1))],
           Some (ErrorString (''failed to execute notary-tool: '' @ error_text err)))
      | None \<Rightarrow>
          ([NotaryRun
              [notaryDelegationPassphraseEnvVar @ ''='' @ Getenv w dctEnvVar,
               notaryAuthEnvVar @ ''='' @ base64 w (Username auth @ '':'' @ Password auth)]
              (''notary'' # notaryArgs w (Split img CHR '':'' ! 0) (Split img CHR '':'' ! 1) len
                 (Split digest CHR '':'' ! 1)),
            Print (''Signed manifest index: '' @ Split img CHR '':'' ! 0 @ '':'' @ Split img CHR '':'' ! 1
                     @ [newline])],
           None))"
proof -
  have a: "\<not> length (Split img CHR '':'') < 2" "\<not> length (Split digest CHR '':'') < 2"
    using assms(1,2) by (simp_all add: length_Split_less_2)
  have b: "Split digest CHR '':'' ! 0 = ''sha256''"
    using assms(3) by (simp only: Split_nth_0)
  show ?thesis
    unfolding signManifest_def Let_def
    by (simp only: a b if_False simp_thms)
qed


text \<open>
  Claim C7. When the part of the digest before its first \<open>:\<close> is not exactly
  \<open>sha256\<close>, \<open>signManifest\<close> returns a validation error and its trace is empty (no
  subprocess is started), whatever the hash, the image reference, the length and the
  credentials are. The error is the first of the three checks that fails: the reference
  without \<open>:\<close>, the digest without \<open>:\<close>, the algorithm.
\<close>

theorem signManifest_rejects_other_algorithms:
  assumes "takeWhile (\<lambda>c. c \<noteq> CHR '':'') digest \<noteq> ''sha256''"
  shows "signManifest w img digest len auth =
           ([], Some (if CHR '':'' \<notin> set img then imageFormatError img
                      else if CHR '':'' \<notin> set digest then digestFormatError digest
                      else algorithmError (takeWhile (\<lambda>c. c \<noteq> CHR '':'') digest)))"
proof (cases "CHR '':'' \<in> set img")
  case False
  then show ?thesis by (simp add: signManifest_no_colon_in_image)
next
  case img: True
  show ?thesis
  proof (cases "CHR '':'' \<in> set digest")
    case False
    with img show ?thesis by (simp add: signManifest_no_colon_in_digest)
  next
    case True
    with img assms show ?thesis by (simp add: signManifest_other_algorithm)
  qed
qed

theorem signManifest_rejects_other_algorithms_witness:
  "takeWhile (\<lambda>c. c \<noteq> CHR '':'') (''sha512:'' @ hex64) \<noteq> ''sha256'' \<and>
   signManifest calm_world ''example/app:1.0'' (''sha512:'' @ hex64) 1234 user_auth =
     ([], Some (ErrorString ''notary works with sha256 hash, not the provided sha512''))"
proof -
  have h: "takeWhile (\<lambda>c. c \<noteq> CHR '':'') (''sha512:'' @ hex64) \<noteq> ''sha256''"
    by simp
  from signManifest_rejects_other_algorithms [OF h, of calm_world "''example/app:1.0''" 1234 user_auth] h
  show ?thesis by (simp add: algorithmError_def)
qed

text \<open>
  Claim C2, as amended. \<open>signManifest\<close> returns the reference validation error, with an
  empty trace (no subprocess), exactly for the image references that contain no \<open>:\<close>.
  A reference that contains a \<open>:\<close> is never rejected by the reference check, an empty
  tag portion included.
\<close>

theorem signManifest_reference_check:
  "(CHR '':'' \<notin> set img \<longrightarrow>
      signManifest w img digest len auth = ([], Some (imageFormatError img))) \<and>
   (CHR '':'' \<in> set img \<longrightarrow>
      snd (signManifest w img digest len auth) \<noteq> Some (imageFormatError img))"
proof (intro conjI impI)
  assume "CHR '':'' \<notin> set img"
  then show "signManifest w img digest len auth = ([], Some (imageFormatError img))"
    by (rule signManifest_no_colon_in_image)
next
  assume img: "CHR '':'' \<in> set img"
  show "snd (signManifest w img digest len auth) \<noteq> Some (imageFormatError img)"
  proof (cases "CHR '':'' \<in> set digest")
    case False
    with img show ?thesis
      by (simp add: signManifest_no_colon_in_digest digestFormatError_def imageFormatError_def)
  next
    case dig: True
    show ?thesis
    proof (cases "takeWhile (\<lambda>c. c \<noteq> CHR '':'') digest = ''sha256''")
      case False
      with img dig show ?thesis
        by (simp add: signManifest_other_algorithm algorithmError_def imageFormatError_def)
    next
      case True
      show ?thesis
        unfolding signManifest_valid [OF img dig True]
        by (simp add: imageFormatError_def split: option.split)
    qed
  qed
qed


theorem signManifest_reference_check_witness:
  "CHR '':'' \<notin> set ''example/app'' \<and>
   signManifest calm_world ''example/app'' (''sha256:'' @ hex64) 1234 user_auth =
     ([], Some (ErrorString (''image not composed of <repo>:<tag> '' @ [quote] @ ''example/app'' @ [quote]))) \<and>
   CHR '':'' \<in> set ''example/app:'' \<and>
   snd (signManifest calm_world ''example/app:'' (''sha256:'' @ hex64) 1234 user_auth) \<noteq>
     Some (imageFormatError ''example/app:'')"
proof -
  have h1: "CHR '':'' \<notin> set ''example/app''" by simp
  have h2: "CHR '':'' \<in> set ''example/app:''" by simp
  from signManifest_reference_check
         [of "''example/app''" calm_world "''sha256:'' @ hex64" 1234 user_auth] h1
  have a: "signManifest calm_world ''example/app'' (''sha256:'' @ hex64) 1234 user_auth =
     ([], Some (ErrorString (''image not composed of <repo>:<tag> '' @ [quote] @ ''example/app'' @ [quote])))"
    by (simp add: imageFormatError_def)
  from signManifest_reference_check
         [of "''example/app:''" calm_world "''sha256:'' @ hex64" 1234 user_auth] h2
  have b: "snd (signManifest calm_world ''example/app:'' (''sha256:'' @ hex64) 1234 user_auth) \<noteq>
     Some (imageFormatError ''example/app:'')"
    by simp
  from h1 h2 a b show ?thesis by simp
qed

lemma calm_world_notary: "run_notary calm_world e argv = None"
  by (simp add: calm_world_def)

text \<open>
  Claim C2 as stated also promises a validation error for an empty tag portion. The
  reference \<open>example/app:\<close> splits into the repository and an empty tag, passes the
  check, and with a valid digest the signing tool is run with the empty tag as argument
  and the call returns no error.
\<close>

theorem signManifest_empty_tag_counterexample:
  "Split ''example/app:'' CHR '':'' = [''example/app'', []] \<and>
   snd (signManifest calm_world ''example/app:'' (''sha256:'' @ hex64) 1234 user_auth) = None \<and>
   map notary_argv (filter is_notary_run
      (fst (signManifest calm_world ''example/app:'' (''sha256:'' @ hex64) 1234 user_auth))) =
     [''notary'' # notaryArgs calm_world ''example/app'' [] 1234 hex64]"
proof -
  have img: "CHR '':'' \<in> set ''example/app:''" by simp
  have dig: "CHR '':'' \<in> set (''sha256:'' @ hex64)" by simp
  have alg: "takeWhile (\<lambda>c. c \<noteq> CHR '':'') (''sha256:'' @ hex64) = ''sha256''" by simp
  have s1: "Split ''example/app:'' CHR '':'' = [''example/app'', []]"
    by (simp add: Split_def)
  have s2: "Split (''sha256:'' @ hex64) CHR '':'' = [''sha256'', hex64]"
    by (simp add: Split_def hex64_def)
  show ?thesis
    unfolding signManifest_valid [OF img dig alg] calm_world_notary s1 s2
    by simp
qed


text \<open>
  Claim C5, as amended. For a reference \<open>repo:tag\<close> and a digest \<open>sha256:hex\<close> whose
  three parts hold no \<open>:\<close> (in particular for 64 hex digits), the first event of
  \<open>signManifest\<close> is a run of the signing tool whose argument vector holds the tag and
  the hex digits unchanged as arguments of their own, and the repository only inside the
  argument \<open>docker.io/repo\<close>; the length is printed in decimal.
\<close>

theorem signManifest_arguments:
  assumes "CHR '':'' \<notin> set repo" and "CHR '':'' \<notin> set tg" and "CHR '':'' \<notin> set hex"
  shows "\<exists>cmdEnv rest.
           fst (signManifest w (repo @ '':'' @ tg) (''sha256:'' @ hex) len auth) =
             NotaryRun cmdEnv
               [''notary'', ''-s'', ''https://notary.docker.io'',
                ''-d'', path_join w (Getenv w ''HOME'') ''.docker/trust'',
                ''addhash'', ''-p'', ''docker.io/'' @ repo, tg, Itoa len,
                ''--sha256'', hex, ''-r'', ''targets/releases''] # rest"
proof -
  have img: "Split (repo @ '':'' @ tg) CHR '':'' = [repo, tg]"
    using assms(1,2) Split_pair [of "CHR '':''" repo tg] by simp
  have dig: "Split (''sha256:'' @ hex) CHR '':'' = [''sha256'', hex]"
    using assms(3) Split_pair [of "CHR '':''" "''sha256''" hex] by simp
  have c1: "CHR '':'' \<in> set (repo @ '':'' @ tg)" and c2: "CHR '':'' \<in> set (''sha256:'' @ hex)"
    by simp_all
  have alg: "takeWhile (\<lambda>c. c \<noteq> CHR '':'') (''sha256:'' @ hex) = ''sha256''"
    by simp
  show ?thesis
    unfolding signManifest_valid [OF c1 c2 alg] img dig
    by (simp add: notaryArgs_def notaryServer_def split: option.split)
qed

theorem signManifest_arguments_witness:
  "CHR '':'' \<notin> set ''example/app'' \<and> CHR '':'' \<notin> set ''1.0'' \<and> CHR '':'' \<notin> set hex64 \<and>
   (\<exists>cmdEnv rest.
      fst (signManifest calm_world ''example/app:1.0'' (''sha256:'' @ hex64) 1234 user_auth) =
        NotaryRun cmdEnv
          [''notary'', ''-s'', ''https://notary.docker.io'', ''-d'', ''.docker/trust'',
           ''addhash'', ''-p'', ''docker.io/example/app'', ''1.0'', ''1234'',
           ''--sha256'', hex64, ''-r'', ''targets/releases''] # rest)"
proof -
  have h: "CHR '':'' \<notin> set ''example/app''" "CHR '':'' \<notin> set ''1.0''" "CHR '':'' \<notin> set hex64"
    by (simp_all add: hex64_def)
  have i: "Itoa 1234 = ''1234''"
    by (simp add: Itoa_def digits10.simps digit_char_def)
  have p: "path_join calm_world (Getenv calm_world ''HOME'') ''.docker/trust'' = ''.docker/trust''"
    by (simp add: calm_world_def Getenv_def)
  from signManifest_arguments [OF h, of calm_world 1234 user_auth] h
  show ?thesis by (simp add: i p)
qed

text \<open>
  Claim C5 as stated says the argument vector contains the string \<open>repo\<close>. For
  \<open>example/app:1.0\<close> no argument is \<open>example/app\<close>: the vector holds
  \<open>docker.io/example/app\<close>.
\<close>

theorem signManifest_repo_counterexample:
  "map notary_argv (filter is_notary_run
      (fst (signManifest calm_world ''example/app:1.0'' (''sha256:'' @ hex64) 1234 user_auth))) =
     [[''notary'', ''-s'', ''https://notary.docker.io'', ''-d'', ''.docker/trust'',
       ''addhash'', ''-p'', ''docker.io/example/app'', ''1.0'', ''1234'',
       ''--sha256'', hex64, ''-r'', ''targets/releases'']] \<and>
   ''example/app'' \<notin> set (concat (map notary_argv (filter is_notary_run
      (fst (signManifest calm_world ''example/app:1.0'' (''sha256:'' @ hex64) 1234 user_auth)))))"
proof -
  have img: "CHR '':'' \<in> set ''example/app:1.0''" by simp
  have dig: "CHR '':'' \<in> set (''sha256:'' @ hex64)" by simp
  have alg: "takeWhile (\<lambda>c. c \<noteq> CHR '':'') (''sha256:'' @ hex64) = ''sha256''" by simp
  have s1: "Split ''example/app:1.0'' CHR '':'' = [''example/app'', ''1.0'']"
    by (simp add: Split_def)
  have s2: "Split (''sha256:'' @ hex64) CHR '':'' = [''sha256'', hex64]"
    by (simp add: Split_def hex64_def)
  have i: "Itoa 1234 = ''1234''"
    by (simp add: Itoa_def digits10.simps digit_char_def)
  have p: "path_join calm_world (Getenv calm_world ''HOME'') ''.docker/trust'' = ''.docker/trust''"
    by (simp add: calm_world_def Getenv_def)
  have argv: "map notary_argv (filter is_notary_run
      (fst (signManifest calm_world ''example/app:1.0'' (''sha256:'' @ hex64) 1234 user_auth))) =
     [[''notary'', ''-s'', ''https://notary.docker.io'', ''-d'', ''.docker/trust'',
       ''addhash'', ''-p'', ''docker.io/example/app'', ''1.0'', ''1234'',
       ''--sha256'', hex64, ''-r'', ''targets/releases'']]"
    unfolding signManifest_valid [OF img dig alg] calm_world_notary s1 s2
    by (simp add: notaryArgs_def notaryServer_def i p)
  have "''example/app'' \<noteq> hex64"
    by (simp add: hex64_def)
  then show ?thesis
    unfolding argv by simp
qed

section \<open>The command executor: properties\<close>

lemma command_pull:
  "command dr w [''image'', ''pull'', img] =
     runCmd w (if dct dr then [dctEnableEnv] else []) [''docker'', ''image'', ''pull'', img] False None"
  by (simp add: command_def isPush_def)

lemma command_push:
  "command dr w [''image'', ''push'', img] =
     runCmd w (if dct dr \<and> sign dr then [dctEnableEnv] else []) [''docker'', ''image'', ''push'', img] False None"
  by (simp add: command_def isPush_def)

text \<open>
  Claim C4. \<open>pull\<close> runs the one command \<open>image pull\<close>. It returns \<open>(true, nil)\<close>
  exactly when the command returns no error, \<open>(false, nil)\<close> exactly when the command's
  error is a process exit error, and \<open>(false, err)\<close> with the command's error for every
  other error; a missing engine binary reaches the caller as the fixed
  tool-not-installed error.
\<close>

theorem pull_classifies_failures:
  "fst (pull dr w img) = fst (command dr w [''image'', ''pull'', img]) \<and>
   (snd (pull dr w img) = Return (True, None) \<longleftrightarrow>
      snd (command dr w [''image'', ''pull'', img]) = Return None) \<and>
   (snd (pull dr w img) = Return (False, None) \<longleftrightarrow>
      (\<exists>e. snd (command dr w [''image'', ''pull'', img]) = Return (Some e) \<and> isExitError e)) \<and>
   (\<forall>e. snd (command dr w [''image'', ''pull'', img]) = Return (Some e) \<and> \<not> isExitError e \<longrightarrow>
      snd (pull dr w img) = Return (False, Some e)) \<and>
   (\<forall>t. run_docker w (if dct dr then [dctEnableEnv] else []) [''docker'', ''image'', ''pull'', img]
          = Some (ExitError t) \<longrightarrow>
      snd (pull dr w img) = Return (False, None)) \<and>
   (\<forall>t. run_docker w (if dct dr then [dctEnableEnv] else []) [''docker'', ''image'', ''pull'', img]
          = Some (ExecError True t) \<longrightarrow>
      snd (pull dr w img) =
        Return (False, Some (ErrorString ''linuxkit pkg requires docker to be installed'')))"
proof -
  obtain tr r where c: "command dr w [''image'', ''pull'', img] = (tr, Return r)"
    by (simp add: command_pull runCmd_def)
  have r: "r = (case run_docker w (if dct dr then [dctEnableEnv] else []) [''docker'', ''image'', ''pull'', img] of
                  Some err \<Rightarrow>
                    if isExecErrNotFound err
                    then Some (ErrorString ''linuxkit pkg requires docker to be installed'')
                    else Some err
                | None \<Rightarrow> None)"
    using c by (simp add: command_pull runCmd_def)
  show ?thesis
  proof (cases r)
    case None
    with c r show ?thesis
      by (auto simp: pull_def split: option.splits if_splits)
  next
    case (Some e)
    with c r show ?thesis
      by (cases e) (auto simp: pull_def split: option.splits if_splits)
  qed
qed


theorem pull_classifies_failures_witness:
  "pull plain_runner calm_world ''example/app:1.0'' =
     ([DockerRun [] [''docker'', ''image'', ''pull'', ''example/app:1.0''] False], Return (True, None)) \<and>
   snd (pull plain_runner failing_engine_world ''example/app:1.0'') = Return (False, None) \<and>
   snd (pull plain_runner no_engine_world ''example/app:1.0'') =
     Return (False, Some (ErrorString ''linuxkit pkg requires docker to be installed''))"
proof -
  have c: "command plain_runner calm_world [''image'', ''pull'', ''example/app:1.0''] =
      ([DockerRun [] [''docker'', ''image'', ''pull'', ''example/app:1.0''] False], Return None)"
    by (simp add: command_pull runCmd_def plain_runner_def newDockerRunner_def calm_world_def)
  have e: "run_docker failing_engine_world (if dct plain_runner then [dctEnableEnv] else [])
             [''docker'', ''image'', ''pull'', ''example/app:1.0''] = Some (ExitError ''exit status 1'')"
    by (simp add: failing_engine_world_def calm_world_def)
  have n: "run_docker no_engine_world (if dct plain_runner then [dctEnableEnv] else [])
             [''docker'', ''image'', ''pull'', ''example/app:1.0''] =
           Some (ExecError True ''executable file not found in PATH'')"
    by (simp add: no_engine_world_def calm_world_def)
  from pull_classifies_failures [of plain_runner calm_world "''example/app:1.0''"] c
  have a: "pull plain_runner calm_world ''example/app:1.0'' =
     ([DockerRun [] [''docker'', ''image'', ''pull'', ''example/app:1.0''] False], Return (True, None))"
    by (simp add: prod_eq_iff)
  from pull_classifies_failures [of plain_runner failing_engine_world "''example/app:1.0''"] e
  have b: "snd (pull plain_runner failing_engine_world ''example/app:1.0'') = Return (False, None)"
    by blast
  from pull_classifies_failures [of plain_runner no_engine_world "''example/app:1.0''"] n
  have d: "snd (pull plain_runner no_engine_world ''example/app:1.0'') =
     Return (False, Some (ErrorString ''linuxkit pkg requires docker to be installed''))"
    by blast
  from a b d show ?thesis by simp
qed

lemma proxyBuildArgs_same_env:
  "list_all (\<lambda>n. env w' n = env w n) ns \<Longrightarrow> proxyBuildArgs w' ns = proxyBuildArgs w ns"
  by (induction ns) auto

lemma proxyBuildArgs_without_extra:
  "proxyBuildArgs (w\<lparr>env := (env w)(buildArgsEnv := None)\<rparr>) proxyEnvVars = proxyBuildArgs w proxyEnvVars"
  by (rule proxyBuildArgs_same_env) (simp add: proxyEnvVars_def buildArgsEnv_def)

lemma command_build:
  "command dr w (''build'' # rest) =
     (case ctx dr of
        None \<Rightarrow>
          runCmd w (if dct dr then [dctEnableEnv] else [])
            (''docker'' # ''build'' # (proxyBuildArgs w proxyEnvVars @ extraBuildArgs w) @ rest) False None
      | Some copied \<Rightarrow>
          (case stdin_pipe w of
             Some err \<Rightarrow> ([], Return (Some err))
           | None \<Rightarrow>
               runCmd w (if dct dr then [dctEnableEnv] else [])
                 (butlast (''docker'' # ''build'' # (proxyBuildArgs w proxyEnvVars @ extraBuildArgs w) @ rest)
                    @ [''-'']) True copied))"
  by (simp add: command_def isPush_def Let_def numeral_2_eq_2 split: option.split)

lemma runCmd_env_update: "runCmd (w\<lparr>env := e\<rparr>) cmdEnv argv piped eg = runCmd w cmdEnv argv piped eg"
  by (simp add: runCmd_def)

text \<open>
  Claim C9. For a build command run while \<open>LK_BUILD_ARGS\<close> holds text that
  \<open>json.Unmarshal\<close> rejects: no build arg comes from the variable, the command does
  what it does with the variable unset, and (without a build context) the engine is run
  once with the proxy-derived build args only, placed after \<open>build\<close>; the command
  returns no error exactly when the engine run gives none.
\<close>

theorem command_build_malformed_json:
  assumes "args \<noteq> []" and "hd args = ''build''"
    and "env w buildArgsEnv = Some v" and "json_unmarshal w v = None"
  shows "extraBuildArgs w = [] \<and>
         command dr w args = command dr (w\<lparr>env := (env w)(buildArgsEnv := None)\<rparr>) args \<and>
         (ctx dr = None \<longrightarrow>
            fst (command dr w args) =
              [DockerRun (if dct dr then [dctEnableEnv] else [])
                 (''docker'' # ''build'' # proxyBuildArgs w proxyEnvVars @ tl args) False] \<and>
            (snd (command dr w args) = Return None \<longleftrightarrow>
               run_docker w (if dct dr then [dctEnableEnv] else [])
                 (''docker'' # ''build'' # proxyBuildArgs w proxyEnvVars @ tl args) = None))"
proof -
  from assms(1,2) obtain rest where args: "args = ''build'' # rest"
    by (cases args) auto
  have extra: "extraBuildArgs w = []"
    using assms(3,4) by (simp add: extraBuildArgs_def)
  have extra': "extraBuildArgs (w\<lparr>env := (env w)(buildArgsEnv := None)\<rparr>) = []"
    by (simp add: extraBuildArgs_def)
  have same: "command dr w args = command dr (w\<lparr>env := (env w)(buildArgsEnv := None)\<rparr>) args"
    unfolding args command_build extra extra' proxyBuildArgs_without_extra runCmd_env_update
    by (simp split: option.split)
  have nil: "ctx dr = None \<longrightarrow>
            fst (command dr w args) =
              [DockerRun (if dct dr then [dctEnableEnv] else [])
                 (''docker'' # ''build'' # proxyBuildArgs w proxyEnvVars @ tl args) False] \<and>
            (snd (command dr w args) = Return None \<longleftrightarrow>
               run_docker w (if dct dr then [dctEnableEnv] else [])
                 (''docker'' # ''build'' # proxyBuildArgs w proxyEnvVars @ tl args) = None)"
    unfolding args command_build extra
    by (auto simp: runCmd_def split: option.splits)
  from extra same nil show ?thesis by simp
qed


theorem command_build_malformed_json_witness:
  "[''build'', ''-t'', ''example/app'', ''.''] \<noteq> [] \<and>
   hd [''build'', ''-t'', ''example/app'', ''.''] = ''build'' \<and>
   env bad_json_world buildArgsEnv = Some ''{not json'' \<and>
   json_unmarshal bad_json_world ''{not json'' = None \<and>
   command plain_runner bad_json_world [''build'', ''-t'', ''example/app'', ''.''] =
     ([DockerRun []
         [''docker'', ''build'', ''--build-arg'', ''http_proxy=http://proxy:3128'',
          ''-t'', ''example/app'', ''.''] False],
      Return None)"
proof -
  let ?args = "[''build'', ''-t'', ''example/app'', ''.'']"
  have h: "?args \<noteq> []" "hd ?args = ''build''"
    "env bad_json_world buildArgsEnv = Some ''{not json''"
    "json_unmarshal bad_json_world ''{not json'' = None"
    by (simp_all add: bad_json_world_def calm_world_def buildArgsEnv_def)
  have p: "proxyBuildArgs bad_json_world proxyEnvVars = [''--build-arg'', ''http_proxy=http://proxy:3128'']"
    by (simp add: bad_json_world_def proxyEnvVars_def)
  have r: "run_docker bad_json_world e argv = None" for e argv
    by (simp add: bad_json_world_def calm_world_def)
  have c: "ctx plain_runner = None" "\<not> dct plain_runner"
    by (simp_all add: plain_runner_def newDockerRunner_def)
  from command_build_malformed_json [OF h, of plain_runner, THEN conjunct2, THEN conjunct2] c
  have "fst (command plain_runner bad_json_world ?args) =
          [DockerRun [] (''docker'' # ''build'' # proxyBuildArgs bad_json_world proxyEnvVars @ tl ?args) False] \<and>
        snd (command plain_runner bad_json_world ?args) = Return None"
    by (simp add: r)
  then have "command plain_runner bad_json_world ?args =
     ([DockerRun []
         [''docker'', ''build'', ''--build-arg'', ''http_proxy=http://proxy:3128'',
          ''-t'', ''example/app'', ''.''] False],
      Return None)"
    by (simp add: p prod_eq_iff)
  with h show ?thesis by simp
qed

section \<open>The pipeline: properties\<close>

lemma push_trace: "filter is_notary_run (fst (push dr w x)) = []"
  by (simp add: push_def command_push runCmd_def)

lemma push_returns: "\<exists>r. snd (push dr w x) = Return r"
  by (simp add: push_def command_push runCmd_def)

lemma manifestPush_trace: "filter is_notary_run (fst (manifestPush w img auth)) = []"
  by (simp add: manifestPush_def manifestPush_over_def Let_def split: sum.split)

lemma imagePushStage_trace:
  "filter is_notary_run (fst (imagePushStage dr w img suffix pushImage)) = []"
  using push_trace [of dr w "img @ suffix"]
  by (cases "push dr w (img @ suffix)") (simp add: imagePushStage_def)

lemma imagePushStage_skipped:
  "imagePushStage dr w img suffix False =
     ([Print (''Image push disabled, skipping...'' @ [newline])], Return None)"
  by (simp add: imagePushStage_def)

lemma manifestPushStage_trace:
  "filter is_notary_run (fst (manifestPushStage w img suffix auth pushManifest)) = []"
  using manifestPush_trace [of w img auth]
  by (cases "manifestPush w img auth") (simp add: manifestPushStage_def)

lemma manifestPushStage_skipped:
  "manifestPushStage w img suffix auth False =
     ([Print (''Manifest push disabled, skipping...'' @ [newline])], [], 0, None)"
  by (simp add: manifestPushStage_def)

lemma signStage_not_signing:
  "\<not> dct dr \<or> \<not> doSign \<Longrightarrow>
   filter is_notary_run (fst (signStage dr w img digest l auth doSign)) = [] \<and>
   filter is_external_call (fst (signStage dr w img digest l auth doSign)) = [] \<and>
   snd (signStage dr w img digest l auth doSign) = None"
  by (auto simp: signStage_def)

lemma signStage_signing:
  "dct dr \<Longrightarrow> doSign \<Longrightarrow>
   signStage dr w img digest l auth doSign =
     (Print (''Signing manifest for '' @ img @ [newline]) # fst (signManifest w img digest l auth),
      snd (signManifest w img digest l auth))"
  by (cases "signManifest w img digest l auth") (simp add: signStage_def)

lemma pushWithManifest_no_signer:
  assumes "\<not> dct dr \<or> \<not> doSign"
  shows "filter is_notary_run (fst (pushWithManifest dr w img suffix pushImage pushManifest doSign)) = []"
proof -
  obtain t1 r1 where p: "imagePushStage dr w img suffix pushImage = (t1, r1)"
    by (cases "imagePushStage dr w img suffix pushImage")
  obtain auth aerr where a: "docker_auth w = (auth, aerr)"
    by (cases "docker_auth w")
  obtain t3 digest l merr where m: "manifestPushStage w img suffix auth pushManifest = (t3, digest, l, merr)"
    by (cases "manifestPushStage w img suffix auth pushManifest")
  obtain t4 r4 where s: "signStage dr w img digest l auth doSign = (t4, r4)"
    by (cases "signStage dr w img digest l auth doSign")
  have t1: "filter is_notary_run t1 = []"
    using imagePushStage_trace [of dr w img suffix pushImage] p by simp
  have t3: "filter is_notary_run t3 = []"
    using manifestPushStage_trace [of w img suffix auth pushManifest] m by simp
  have t4: "filter is_notary_run t4 = []"
    using signStage_not_signing [OF assms, of w img digest l auth] s by simp
  show ?thesis
    using t1 t3 t4
    by (simp add: pushWithManifest_def getDockerAuth_def p a m s
        split: outcome.split option.split)
qed

lemma pushWithManifest_after_stages:
  assumes "earlier_stages_pass dr w img suffix pushImage pushManifest"
  shows "pushWithManifest dr w img suffix pushImage pushManifest doSign =
           (fst (imagePushStage dr w img suffix pushImage) @ [AuthLookup] @
            fst (manifestPushStage w img suffix (fst (docker_auth w)) pushManifest) @
            fst (signStage dr w img
                   (fst (snd (manifestPushStage w img suffix (fst (docker_auth w)) pushManifest)))
                   (fst (snd (snd (manifestPushStage w img suffix (fst (docker_auth w)) pushManifest))))
                   (fst (docker_auth w)) doSign),
            Return (snd (signStage dr w img
                   (fst (snd (manifestPushStage w img suffix (fst (docker_auth w)) pushManifest)))
                   (fst (snd (snd (manifestPushStage w img suffix (fst (docker_auth w)) pushManifest))))
                   (fst (docker_auth w)) doSign)))"
proof -
  obtain t1 r1 where p: "imagePushStage dr w img suffix pushImage = (t1, r1)"
    by (cases "imagePushStage dr w img suffix pushImage")
  obtain auth aerr where a: "docker_auth w = (auth, aerr)"
    by (cases "docker_auth w")
  obtain t3 digest l merr where m: "manifestPushStage w img suffix auth pushManifest = (t3, digest, l, merr)"
    by (cases "manifestPushStage w img suffix auth pushManifest")
  obtain t4 r4 where s: "signStage dr w img digest l auth doSign = (t4, r4)"
    by (cases "signStage dr w img digest l auth doSign")
  from assms have ok: "r1 = Return None" "aerr = None" "merr = None"
    by (simp_all add: earlier_stages_pass_def p a m)
  show ?thesis
    by (simp add: pushWithManifest_def getDockerAuth_def p a m s ok)
qed


lemma calm_world_engine: "run_docker calm_world e argv = None"
  by (simp add: calm_world_def)

lemma calm_world_auth: "docker_auth calm_world = (user_auth, None)"
  by (simp add: calm_world_def user_auth_def)

lemma calm_world_registry: "snd (snd (registry_push calm_world u p input b1 b2 b3 s)) = None"
  by (simp add: calm_world_def)

lemma manifestPush_result:
  "snd (manifestPush w img auth) =
     registry_push w (Username auth) (Password auth)
       \<lparr>yaml_Image = img, yaml_Manifests = map (platformEntry img) platforms\<rparr> True False False []"
  by (simp add: manifestPush_def manifestPush_over_def manifestEntries_platforms Let_def)

lemma earlier_stages_pass_calm_world:
  "earlier_stages_pass dr calm_world img suffix pushImage pushManifest"
proof -
  have a: "snd (imagePushStage dr calm_world img suffix pushImage) = Return None"
    by (cases pushImage)
       (simp_all add: imagePushStage_def push_def command_push runCmd_def calm_world_engine)
  have b: "snd (snd (snd (manifestPushStage calm_world img suffix user_auth pushManifest))) = None"
    by (cases pushManifest; cases "manifestPush calm_world img user_auth")
       (use manifestPush_result [of calm_world img user_auth] calm_world_registry
         in \<open>auto simp: manifestPushStage_def\<close>)
  from a b show ?thesis
    by (simp add: earlier_stages_pass_def calm_world_auth)
qed

text \<open>
  Claim C3. The stages of \<open>pushWithManifest\<close> run in sequence, each after the success
  of the one before; the claim is about the signing decision, reached once the earlier
  stages passed (the image push when enabled, the credential lookup, the manifest push
  when enabled). When content trust is disabled on the runner, or the sign flag is false,
  the run returns success, and it never runs the signing tool (whatever the earlier
  stages did). When content trust is enabled, the sign flag is true and the manifest push
  is disabled, the run ends with \<open>signManifest\<close> called on the empty digest and the
  length zero: its events and its result are those of that call.
\<close>

theorem pushWithManifest_signing_decision:
  "(\<not> dct dr \<or> \<not> doSign \<longrightarrow>
      filter is_notary_run (fst (pushWithManifest dr w img suffix pushImage pushManifest doSign)) = [] \<and>
      (earlier_stages_pass dr w img suffix pushImage pushManifest \<longrightarrow>
         snd (pushWithManifest dr w img suffix pushImage pushManifest doSign) = Return None)) \<and>
   (dct dr \<and> doSign \<and> earlier_stages_pass dr w img suffix pushImage False \<longrightarrow>
      pushWithManifest dr w img suffix pushImage False doSign =
        (fst (imagePushStage dr w img suffix pushImage) @
         [AuthLookup,
          Print (''Manifest push disabled, skipping...'' @ [newline]),
          Print (''Signing manifest for '' @ img @ [newline])] @
         fst (signManifest w img [] 0 (fst (docker_auth w))),
         Return (snd (signManifest w img [] 0 (fst (docker_auth w))))))"
proof (intro conjI impI)
  assume "\<not> dct dr \<or> \<not> doSign"
  then show "filter is_notary_run (fst (pushWithManifest dr w img suffix pushImage pushManifest doSign)) = []"
    by (rule pushWithManifest_no_signer)
next
  assume off: "\<not> dct dr \<or> \<not> doSign"
    and pass: "earlier_stages_pass dr w img suffix pushImage pushManifest"
  show "snd (pushWithManifest dr w img suffix pushImage pushManifest doSign) = Return None"
    unfolding pushWithManifest_after_stages [OF pass]
    using signStage_not_signing [OF off] by simp
next
  assume on: "dct dr \<and> doSign \<and> earlier_stages_pass dr w img suffix pushImage False"
  then have pass: "earlier_stages_pass dr w img suffix pushImage False" and d: "dct dr" and s: doSign
    by simp_all
  show "pushWithManifest dr w img suffix pushImage False doSign =
        (fst (imagePushStage dr w img suffix pushImage) @
         [AuthLookup,
          Print (''Manifest push disabled, skipping...'' @ [newline]),
          Print (''Signing manifest for '' @ img @ [newline])] @
         fst (signManifest w img [] 0 (fst (docker_auth w))),
         Return (snd (signManifest w img [] 0 (fst (docker_auth w)))))"
    unfolding pushWithManifest_after_stages [OF pass] manifestPushStage_skipped
    by (simp add: signStage_signing [OF d s])
qed

text \<open>
  Claim C8, as amended. With the image push, the manifest push and the signing all
  disabled, \<open>pushWithManifest\<close> makes no external call (no engine run, no registry push,
  no run of the signing tool); it still reads the credential store, returns success when
  that lookup succeeds, and the error \<open>failed to get auth\<close> when it fails.
\<close>

theorem pushWithManifest_all_stages_skipped:
  "filter is_external_call (fst (pushWithManifest dr w img suffix False False False)) = [] \<and>
   snd (pushWithManifest dr w img suffix False False False) =
     Return (case snd (docker_auth w) of
               None \<Rightarrow> None
             | Some err \<Rightarrow> Some (ErrorString (''failed to get auth: '' @ error_text err)))"
proof -
  obtain auth aerr where a: "docker_auth w = (auth, aerr)"
    by (cases "docker_auth w")
  obtain t4 r4 where s: "signStage dr w img [] 0 auth False = (t4, r4)"
    by (cases "signStage dr w img [] 0 auth False")
  have t4: "filter is_external_call t4 = []" "r4 = None"
    using signStage_not_signing [of dr False w img "[]" 0 auth] s by simp_all
  show ?thesis
    using t4
    by (cases aerr)
       (simp_all add: pushWithManifest_def getDockerAuth_def imagePushStage_skipped
          manifestPushStage_skipped a s)
qed


theorem pushWithManifest_signing_decision_witness:
  "\<not> dct plain_runner \<and>
   earlier_stages_pass plain_runner calm_world ''example/app:1.0'' ''-amd64'' True True \<and>
   filter is_notary_run
     (fst (pushWithManifest plain_runner calm_world ''example/app:1.0'' ''-amd64'' True True True)) = [] \<and>
   snd (pushWithManifest plain_runner calm_world ''example/app:1.0'' ''-amd64'' True True True) =
     Return None \<and>
   dct trusting_runner \<and>
   earlier_stages_pass trusting_runner calm_world ''example/app:1.0'' ''-amd64'' True False \<and>
   snd (pushWithManifest trusting_runner calm_world ''example/app:1.0'' ''-amd64'' True False True) =
     Return (Some (ErrorString (''digest not composed of <algo>:<hash> '' @ [quote] @ [quote])))"
proof -
  let ?img = "''example/app:1.0''"
  have off: "\<not> dct plain_runner"
    by (simp add: plain_runner_def newDockerRunner_def)
  have on: "dct trusting_runner"
    by (simp add: trusting_runner_def newDockerRunner_def)
  have p1: "earlier_stages_pass plain_runner calm_world ?img ''-amd64'' True True"
    by (rule earlier_stages_pass_calm_world)
  have p2: "earlier_stages_pass trusting_runner calm_world ?img ''-amd64'' True False"
    by (rule earlier_stages_pass_calm_world)
  from pushWithManifest_signing_decision
         [of plain_runner True calm_world ?img "''-amd64''" True True, THEN conjunct1] off p1
  have a: "filter is_notary_run
     (fst (pushWithManifest plain_runner calm_world ?img ''-amd64'' True True True)) = [] \<and>
     snd (pushWithManifest plain_runner calm_world ?img ''-amd64'' True True True) = Return None"
    by simp
  have sm: "snd (signManifest calm_world ?img [] 0 (fst (docker_auth calm_world))) =
      Some (ErrorString (''digest not composed of <algo>:<hash> '' @ [quote] @ [quote]))"
    by (simp add: signManifest_no_colon_in_digest digestFormatError_def)
  from pushWithManifest_signing_decision
         [of trusting_runner True calm_world ?img "''-amd64''" True False, THEN conjunct2] on p2
  have b: "snd (pushWithManifest trusting_runner calm_world ?img ''-amd64'' True False True) =
     Return (Some (ErrorString (''digest not composed of <algo>:<hash> '' @ [quote] @ [quote])))"
    by (simp add: sm)
  from off on p1 p2 a b show ?thesis by simp
qed

theorem pushWithManifest_all_stages_skipped_witness:
  "pushWithManifest plain_runner calm_world ''example/app:1.0'' ''-amd64'' False False False =
     ([Print (''Image push disabled, skipping...'' @ [newline]),
       AuthLookup,
       Print (''Manifest push disabled, skipping...'' @ [newline]),
       Print (''trust disabled, not signing'' @ [newline])],
      Return None)"
proof -
  have au: "snd (docker_auth calm_world) = None"
    by (simp add: calm_world_auth)
  have tr: "fst (pushWithManifest plain_runner calm_world ''example/app:1.0'' ''-amd64'' False False False) =
     [Print (''Image push disabled, skipping...'' @ [newline]),
       AuthLookup,
       Print (''Manifest push disabled, skipping...'' @ [newline]),
       Print (''trust disabled, not signing'' @ [newline])]"
    by (simp add: pushWithManifest_def imagePushStage_skipped manifestPushStage_skipped
        getDockerAuth_def calm_world_auth signStage_def plain_runner_def newDockerRunner_def)
  from pushWithManifest_all_stages_skipped
         [of plain_runner calm_world "''example/app:1.0''" "''-amd64''"] au tr
  show ?thesis by (simp add: prod_eq_iff)
qed

text \<open>
  Claim C8 as stated promises success. With a credential store that cannot be read the
  run with the three flags false returns the error \<open>failed to get auth\<close>.
\<close>

theorem pushWithManifest_no_credentials_counterexample:
  "pushWithManifest plain_runner no_credentials_world ''example/app:1.0'' ''-amd64'' False False False =
     ([Print (''Image push disabled, skipping...'' @ [newline]), AuthLookup],
      Return (Some (ErrorString ''failed to get auth: error getting credentials''))) \<and>
   snd (pushWithManifest plain_runner no_credentials_world ''example/app:1.0'' ''-amd64'' False False False)
     \<noteq> Return None"
proof -
  have au: "docker_auth no_credentials_world =
      (\<lparr>Username = [], Password = []\<rparr>, Some (OtherError ''error getting credentials''))"
    by (simp add: no_credentials_world_def calm_world_def)
  show ?thesis
    by (simp add: pushWithManifest_def imagePushStage_skipped getDockerAuth_def au)
qed

end
